theory Spec2Isabelle
  imports Main "HOL-Library.Word"
begin

section \<open>Data model of MultiApkGenerator.cpp\<close>

text \<open>
  The development embeds \<^verbatim>\<open>tools/aapt2/optimize/MultiApkGenerator.cpp\<close>:
  \<^verbatim>\<open>GetAndroidSdk\<close>, the class \<^verbatim>\<open>ContextWrapper\<close>,
  \<^verbatim>\<open>MultiApkGenerator::FilterTable\<close> and \<^verbatim>\<open>MultiApkGenerator::FromBaseApk\<close>.
  Pointers to opaque objects are addresses, \<^verbatim>\<open>Maybe<T>\<close> and nullable pointers are
  \<open>option\<close>, \<^verbatim>\<open>std::map\<close> is a partial function. The content of a resource table and
  the table flattener options are opaque to this file: they are the type parameters
  \<open>'t\<close> and \<open>'o\<close>.
\<close>

type_synonym addr = nat

subsection \<open>Diagnostics\<close>

record Source =
  path :: string
  line :: "nat option"

datatype Severity = Error | Warn | Note

text \<open>One message delivered to \<^verbatim>\<open>IDiagnostics\<close>: \<^verbatim>\<open>DiagMessage(source) << text\<close>.\<close>

datatype Diagnostic = Diag Severity "Source option" string

subsection \<open>XML documents\<close>

datatype Item = BinaryPrimitive int | OtherItem string

datatype Attribute =
  Attribute (attr_namespace_uri: string) (attr_name: string) (attr_value: string)
    (compiled_value: "Item option")

datatype Element =
  Element (el_namespace_uri: string) (el_name: string) (line_number: nat)
    (attributes: "Attribute list") (children: "Node list")
and Node = ElementNode Element | TextNode string

record XmlResource =
  file_source :: Source
  root :: "Element option"

subsection \<open>Configuration\<close>

type_synonym Abi = string

record ConfigDescription =
  density :: nat
  qualifiers :: string

record AndroidSdk =
  min_sdk_version :: "int option"

record Artifact =
  name :: "string option"
  abi_group :: "string option"
  screen_density_group :: "string option"
  locale_group :: "string option"
  android_sdk_group :: "string option"

record PostProcessingConfiguration =
  artifacts :: "Artifact list"
  artifact_format :: "string option"
  abi_groups :: "string \<rightharpoonup> Abi list"
  screen_density_groups :: "string \<rightharpoonup> ConfigDescription list"
  locale_groups :: "string \<rightharpoonup> ConfigDescription list"
  android_sdk_groups :: "string \<rightharpoonup> AndroidSdk"

record 'o MultiApkGeneratorOptions =
  out_dir :: string
  config :: PostProcessingConfiguration
  table_flattener_options :: 'o

subsection \<open>Filters and splitter options\<close>

datatype Filter = AbiFilter "Abi list"

type_synonym FilterChain = "Filter list"

type_synonym AxisConfigFilter = "ConfigDescription list"

record TableSplitterOptions =
  preferred_densities :: "nat list"
  config_filter :: "AxisConfigFilter option"

definition AddFilter :: "FilterChain \<Rightarrow> Filter \<Rightarrow> FilterChain" where
  "AddFilter filters f = filters @ [f]"

definition AddConfig :: "AxisConfigFilter \<Rightarrow> ConfigDescription \<Rightarrow> AxisConfigFilter" where
  "AddConfig axis_filter c = axis_filter @ [c]"

subsection \<open>The build context and its wrapper\<close>

text \<open>
  The values the accessors of the shared \<^verbatim>\<open>IAaptContext\<close> return. The package type is
  the enumerator's number, the symbol table, diagnostics sink and name mangler are the
  addresses of those objects.
\<close>

record IAaptContext =
  PackageType :: nat
  ExternalSymbols :: addr
  Diagnostics :: addr
  CompilationPackage :: string
  PackageId :: "8 word"
  NameMangler :: addr
  Verbose :: bool
  MinSdkVersion :: int

text \<open>
  \<^verbatim>\<open>class ContextWrapper\<close>, lines 69-115: the fields \<^verbatim>\<open>context_\<close> (here
  \<open>cw_context\<close>) and \<^verbatim>\<open>min_sdk_\<close> (here \<open>cw_min_sdk\<close>).
\<close>

record ContextWrapper =
  cw_context :: IAaptContext
  cw_min_sdk :: int

definition ContextWrapper :: "IAaptContext \<Rightarrow> ContextWrapper" where
  "ContextWrapper ctx = \<lparr>cw_context = ctx, cw_min_sdk = MinSdkVersion ctx\<rparr>"

definition GetPackageType :: "ContextWrapper \<Rightarrow> nat" where
  "GetPackageType w = PackageType (cw_context w)"

definition GetExternalSymbols :: "ContextWrapper \<Rightarrow> addr" where
  "GetExternalSymbols w = ExternalSymbols (cw_context w)"

definition GetDiagnostics :: "ContextWrapper \<Rightarrow> addr" where
  "GetDiagnostics w = Diagnostics (cw_context w)"

definition GetCompilationPackage :: "ContextWrapper \<Rightarrow> string" where
  "GetCompilationPackage w = CompilationPackage (cw_context w)"

definition GetPackageId :: "ContextWrapper \<Rightarrow> 8 word" where
  "GetPackageId w = PackageId (cw_context w)"

definition GetNameMangler :: "ContextWrapper \<Rightarrow> addr" where
  "GetNameMangler w = NameMangler (cw_context w)"

definition IsVerbose :: "ContextWrapper \<Rightarrow> bool" where
  "IsVerbose w = Verbose (cw_context w)"

definition GetMinSdkVersion :: "ContextWrapper \<Rightarrow> int" where
  "GetMinSdkVersion w = cw_min_sdk w"

definition SetMinSdkVersion :: "ContextWrapper \<Rightarrow> int \<Rightarrow> ContextWrapper" where
  "SetMinSdkVersion w min_sdk = w\<lparr>cw_min_sdk := min_sdk\<rparr>"

subsection \<open>The base package, the program state and the collaborators\<close>

text \<open>
  \<^verbatim>\<open>LoadedApk\<close> as this file uses it: \<^verbatim>\<open>GetSource()\<close>, the pointer
  \<^verbatim>\<open>GetResourceTable()\<close> returns, and the manifest stored in the package
  (\<open>None\<close> when it cannot be loaded).
\<close>

record LoadedApk =
  apk_source :: Source
  apk_table :: addr
  apk_manifest :: "XmlResource option"

text \<open>One successful \<^verbatim>\<open>WriteToArchive\<close> call: the writer's path and what was handed over.\<close>

record ('t, 'o) Archive =
  ar_writer :: "string option"
  ar_table :: 't
  ar_options :: 'o
  ar_filters :: FilterChain
  ar_manifest :: "XmlResource option"

text \<open>
  The state every step takes and returns: the base package \<^verbatim>\<open>apk_\<close>, the heap of
  resource tables (the base table and every clone live there, \<open>next_table\<close> is the first
  address never handed out), the diagnostics sink and the archives written so far.
  The destruction of the \<^verbatim>\<open>unique_ptr\<close>-owned clones at scope exit is not modelled:
  addresses are never reused.
\<close>

record ('t, 'o) World =
  apk :: LoadedApk
  tables :: "addr \<Rightarrow> 't"
  next_table :: addr
  diags :: "Diagnostic list"
  archives :: "('t, 'o) Archive list"

text \<open>
  The functions this file calls and whose code lives elsewhere are parameters. A message
  such a function sends to the diagnostics sink on its own is not recorded.
  \<^item> \<open>GetFilename\<close>: \<^verbatim>\<open>file::GetFilename\<close>;
  \<^item> \<open>Name\<close>, \<open>ToArtifactName\<close>: \<^verbatim>\<open>Artifact::Name(apk_name, diag)\<close> and
    \<^verbatim>\<open>Artifact::ToArtifactName(format, apk_name, diag)\<close>;
  \<^item> \<open>Consume\<close>: \<^verbatim>\<open>VersionCollapser::Consume(context, table)\<close>, the result and the
    table it leaves behind;
  \<^item> \<open>SplitTable\<close>: \<^verbatim>\<open>TableSplitter{{}, splits}.SplitTable(table)\<close>;
  \<^item> \<open>mkdirs\<close>, \<open>AppendPath\<close>: \<^verbatim>\<open>file::mkdirs\<close>, \<^verbatim>\<open>file::AppendPath\<close>;
  \<^item> \<open>CreateZipFileArchiveWriter\<close>: the writer bound to a path, or null;
  \<^item> \<open>WriteToArchive\<close>: \<^verbatim>\<open>LoadedApk::WriteToArchive\<close>.
\<close>

record ('t, 'o) Collaborators =
  GetFilename :: "string \<Rightarrow> string"
  Name :: "Artifact \<Rightarrow> string \<Rightarrow> string option"
  ToArtifactName :: "Artifact \<Rightarrow> string \<Rightarrow> string \<Rightarrow> string option"
  Consume :: "ContextWrapper \<Rightarrow> 't \<Rightarrow> bool \<times> 't"
  SplitTable :: "TableSplitterOptions \<Rightarrow> 't \<Rightarrow> 't"
  mkdirs :: "string \<Rightarrow> bool"
  AppendPath :: "string \<Rightarrow> string \<Rightarrow> string"
  CreateZipFileArchiveWriter :: "string \<Rightarrow> string option"
  WriteToArchive ::
    "IAaptContext \<Rightarrow> 't \<Rightarrow> 'o \<Rightarrow> FilterChain \<Rightarrow> string option \<Rightarrow> XmlResource option \<Rightarrow> bool"

text \<open>
  How a call of \<^verbatim>\<open>FromBaseApk\<close> ends: it returns a \<^verbatim>\<open>bool\<close>, or it reads
  \<^verbatim>\<open>value()\<close> of an empty \<^verbatim>\<open>Maybe\<close>, where the model stops.
\<close>

datatype Outcome = Returned bool | ValueOnNothing

definition report ::
  "Severity \<Rightarrow> Source option \<Rightarrow> string \<Rightarrow> ('t, 'o) World \<Rightarrow> ('t, 'o) World" where
  "report sev src msg w = w\<lparr>diags := diags w @ [Diag sev src msg]\<rparr>"

section \<open>Helpers whose code is not in this file\<close>

text \<open>
  Modelled from the spec: \<^verbatim>\<open>xml::kSchemaAndroid\<close>, "the platform's reserved
  namespace".
\<close>

definition kSchemaAndroid :: string where
  "kSchemaAndroid = ''http://schemas.android.com/apk/res/android''"

text \<open>
  Modelled from the spec: \<^verbatim>\<open>xml::Element::FindChild\<close>, "child lookup by local name":
  the first direct child element with the given namespace and name.
\<close>

fun find_child :: "string \<Rightarrow> string \<Rightarrow> Node list \<Rightarrow> Element option" where
  "find_child ns nm [] = None"
| "find_child ns nm (ElementNode e # rest) =
     (if el_namespace_uri e = ns \<and> el_name e = nm then Some e else find_child ns nm rest)"
| "find_child ns nm (TextNode t # rest) = find_child ns nm rest"

definition FindChild :: "Element \<Rightarrow> string \<Rightarrow> string \<Rightarrow> Element option" where
  "FindChild el ns nm = find_child ns nm (children el)"

text \<open>
  Modelled from the spec: \<^verbatim>\<open>xml::Element::FindAttribute\<close>, "attribute lookup by
  namespace+local-name": the first attribute with the given namespace and name.
\<close>

fun find_attribute :: "string \<Rightarrow> string \<Rightarrow> Attribute list \<Rightarrow> Attribute option" where
  "find_attribute ns nm [] = None"
| "find_attribute ns nm (a # rest) =
     (if attr_namespace_uri a = ns \<and> attr_name a = nm then Some a
      else find_attribute ns nm rest)"

definition FindAttribute :: "Element \<Rightarrow> string \<Rightarrow> string \<Rightarrow> Attribute option" where
  "FindAttribute el ns nm = find_attribute ns nm (attributes el)"

text \<open>
  The assignment \<^verbatim>\<open>min_sdk_attr->compiled_value = v\<close> goes through the pointers that
  \<^verbatim>\<open>FindChild\<close> and \<^verbatim>\<open>FindAttribute\<close> returned, so it changes, inside the document
  that owns them, the attribute and the child that those lookups found.
\<close>

fun assign_attribute ::
  "string \<Rightarrow> string \<Rightarrow> Item option \<Rightarrow> Attribute list \<Rightarrow> Attribute list" where
  "assign_attribute ns nm v [] = []"
| "assign_attribute ns nm v (a # rest) =
     (if attr_namespace_uri a = ns \<and> attr_name a = nm
      then Attribute (attr_namespace_uri a) (attr_name a) (attr_value a) v # rest
      else a # assign_attribute ns nm v rest)"

fun assign_in_child ::
  "string \<Rightarrow> string \<Rightarrow> (Element \<Rightarrow> Element) \<Rightarrow> Node list \<Rightarrow> Node list" where
  "assign_in_child ns nm f [] = []"
| "assign_in_child ns nm f (ElementNode e # rest) =
     (if el_namespace_uri e = ns \<and> el_name e = nm then ElementNode (f e) # rest
      else ElementNode e # assign_in_child ns nm f rest)"
| "assign_in_child ns nm f (TextNode t # rest) = TextNode t # assign_in_child ns nm f rest"

definition set_attributes :: "Element \<Rightarrow> Attribute list \<Rightarrow> Element" where
  "set_attributes e as = Element (el_namespace_uri e) (el_name e) (line_number e) as (children e)"

definition set_children :: "Element \<Rightarrow> Node list \<Rightarrow> Element" where
  "set_children e cs = Element (el_namespace_uri e) (el_name e) (line_number e) (attributes e) cs"

definition assign_min_sdk :: "XmlResource \<Rightarrow> Element \<Rightarrow> Item option \<Rightarrow> XmlResource" where
  "assign_min_sdk manifest manifest_el v =
     manifest\<lparr>root := Some (set_children manifest_el
       (assign_in_child [] ''uses-sdk''
          (\<lambda>uses_sdk_el. set_attributes uses_sdk_el
             (assign_attribute kSchemaAndroid ''minSdkVersion'' v (attributes uses_sdk_el)))
          (children manifest_el)))\<rparr>"

text \<open>
  Modelled from the spec: \<^verbatim>\<open>std::to_string\<close> followed by
  \<^verbatim>\<open>ResourceUtils::TryParseInt\<close>, "overwrite the attribute's compiled integer value
  with the SDK group's minimum version": the decimal text of an \<^verbatim>\<open>int\<close> parses back
  to the integer item of that value.
\<close>

definition TryParseInt_to_string :: "int \<Rightarrow> Item option" where
  "TryParseInt_to_string v = Some (BinaryPrimitive v)"

text \<open>
  Modelled from the spec: \<^verbatim>\<open>LoadedApk::InflateManifest\<close>, "load/inflate the manifest
  from the base package": a new document, owned by the caller, with the content of the
  package's manifest; null when loading fails.
\<close>

definition InflateManifest :: "LoadedApk \<Rightarrow> XmlResource option" where
  "InflateManifest a = apk_manifest a"

text \<open>
  Modelled from the spec: \<^verbatim>\<open>ResourceTable::Clone\<close>, "clone() -> owned table": a new
  table object at a fresh address, with the content of the table cloned.
\<close>

definition Clone :: "addr \<Rightarrow> ('t, 'o) World \<Rightarrow> addr \<times> ('t, 'o) World" where
  "Clone old_table w =
     (next_table w,
      w\<lparr>tables := (tables w)(next_table w := tables w old_table),
        next_table := Suc (next_table w)\<rparr>)"

section \<open>GetAndroidSdk, lines 47-62\<close>

definition quote :: "string \<Rightarrow> string" where
  "quote s = [CHR 0x27] @ s @ [CHR 0x27]"

definition GetAndroidSdk ::
  "Artifact \<Rightarrow> PostProcessingConfiguration \<Rightarrow> ('t, 'o) World
     \<Rightarrow> AndroidSdk option \<times> ('t, 'o) World" where
  "GetAndroidSdk artifact cfg w =
     (case android_sdk_group artifact of
        None \<Rightarrow> (None, w)
      | Some group_name \<Rightarrow>
          (case android_sdk_groups cfg group_name of
             None \<Rightarrow>
               (None, report Error None (''could not find referenced group '' @ quote group_name) w)
           | Some grp \<Rightarrow> (Some grp, w)))"

section \<open>MultiApkGenerator::FilterTable, lines 218-289\<close>

text \<open>
  Lines 224 and 273-276: the wrapper around \<^verbatim>\<open>context_\<close>, with the minimum SDK of the
  artifact's SDK group when the group was found and carries one.
\<close>

definition wrappedContext :: "IAaptContext \<Rightarrow> AndroidSdk option \<Rightarrow> ContextWrapper" where
  "wrappedContext ctx sdk =
     (case sdk of
        None \<Rightarrow> ContextWrapper ctx
      | Some s \<Rightarrow>
          (case min_sdk_version s of
             None \<Rightarrow> ContextWrapper ctx
           | Some v \<Rightarrow> SetMinSdkVersion (ContextWrapper ctx) v))"

text \<open>
  Lines 273-288. The result is the address of the clone, or \<open>None\<close> for the null
  pointer of \<^verbatim>\<open>return {}\<close>.
\<close>

definition FilterTable_collapse ::
  "('t, 'o) Collaborators \<Rightarrow> IAaptContext \<Rightarrow> Artifact \<Rightarrow> PostProcessingConfiguration \<Rightarrow> addr
     \<Rightarrow> FilterChain \<Rightarrow> TableSplitterOptions \<Rightarrow> ('t, 'o) World
     \<Rightarrow> addr option \<times> FilterChain \<times> ('t, 'o) World" where
  "FilterTable_collapse env ctx artifact cfg old_table filters splits w =
     (let (sdk, w1) = GetAndroidSdk artifact cfg w;
          wrapped = wrappedContext ctx sdk;
          (table, w2) = Clone old_table w1;
          (ok, collapsed) = Consume env wrapped (tables w2 table);
          w3 = w2\<lparr>tables := (tables w2)(table := collapsed)\<rparr>
      in if \<not> ok then
           (None, filters, report Error None ''Failed to strip versioned resources'' w3)
         else
           (Some table, filters,
            w3\<lparr>tables := (tables w3)(table := SplitTable env splits (tables w3 table))\<rparr>))"

text \<open>Lines 256-271, then the rest of the function.\<close>

definition FilterTable_locale ::
  "('t, 'o) Collaborators \<Rightarrow> IAaptContext \<Rightarrow> Artifact \<Rightarrow> PostProcessingConfiguration \<Rightarrow> addr
     \<Rightarrow> FilterChain \<Rightarrow> TableSplitterOptions \<Rightarrow> AxisConfigFilter \<Rightarrow> ('t, 'o) World
     \<Rightarrow> addr option \<times> FilterChain \<times> ('t, 'o) World" where
  "FilterTable_locale env ctx artifact cfg old_table filters splits axis_filter w =
     (case locale_group artifact of
        None \<Rightarrow> FilterTable_collapse env ctx artifact cfg old_table filters splits w
      | Some group_name \<Rightarrow>
          (case locale_groups cfg group_name of
             None \<Rightarrow>
               (None, filters,
                report Error None (''could not find referenced group '' @ quote group_name) w)
           | Some locales \<Rightarrow>
               FilterTable_collapse env ctx artifact cfg old_table filters
                 (splits\<lparr>config_filter := Some (foldl AddConfig axis_filter locales)\<rparr>) w))"

text \<open>Lines 239-254, then the rest of the function.\<close>

definition FilterTable_density ::
  "('t, 'o) Collaborators \<Rightarrow> IAaptContext \<Rightarrow> Artifact \<Rightarrow> PostProcessingConfiguration \<Rightarrow> addr
     \<Rightarrow> FilterChain \<Rightarrow> TableSplitterOptions \<Rightarrow> AxisConfigFilter \<Rightarrow> ('t, 'o) World
     \<Rightarrow> addr option \<times> FilterChain \<times> ('t, 'o) World" where
  "FilterTable_density env ctx artifact cfg old_table filters splits axis_filter w =
     (case screen_density_group artifact of
        None \<Rightarrow> FilterTable_locale env ctx artifact cfg old_table filters splits axis_filter w
      | Some group_name \<Rightarrow>
          (case screen_density_groups cfg group_name of
             None \<Rightarrow>
               (None, filters,
                report Error None (''could not find referenced group '' @ quote group_name) w)
           | Some densities \<Rightarrow>
               FilterTable_locale env ctx artifact cfg old_table filters
                 (splits\<lparr>preferred_densities :=
                    foldl (\<lambda>ds density_config. ds @ [density density_config])
                      (preferred_densities splits) densities\<rparr>)
                 axis_filter w))"

text \<open>Lines 222-237, then the rest of the function.\<close>

definition FilterTable ::
  "('t, 'o) Collaborators \<Rightarrow> IAaptContext \<Rightarrow> Artifact \<Rightarrow> PostProcessingConfiguration \<Rightarrow> addr
     \<Rightarrow> FilterChain \<Rightarrow> ('t, 'o) World \<Rightarrow> addr option \<times> FilterChain \<times> ('t, 'o) World" where
  "FilterTable env ctx artifact cfg old_table filters w =
     (let splits = \<lparr>preferred_densities = [], config_filter = None\<rparr>;
          axis_filter = []
      in case abi_group artifact of
           None \<Rightarrow>
             FilterTable_density env ctx artifact cfg old_table filters splits axis_filter w
         | Some group_name \<Rightarrow>
             (case abi_groups cfg group_name of
                None \<Rightarrow>
                  (None, filters,
                   report Error None
                     (''could not find referenced ABI group '' @ quote group_name) w)
              | Some grp \<Rightarrow>
                  FilterTable_density env ctx artifact cfg old_table
                    (AddFilter filters (AbiFilter grp)) splits axis_filter w))"

section \<open>MultiApkGenerator::FromBaseApk, lines 121-216\<close>

text \<open>
  A segment of the loop body yields \<open>Some outcome\<close> where the function ends
  (\<^verbatim>\<open>return\<close>, or \<^verbatim>\<open>value()\<close> of an empty \<^verbatim>\<open>Maybe\<close>) and \<open>None\<close> where control
  reaches the end of the body and the loop goes on.
\<close>

text \<open>Lines 192-212: the output directory, the path, the writer and the write.\<close>

definition FromBaseApk_write ::
  "('t, 'o) Collaborators \<Rightarrow> 'o MultiApkGeneratorOptions \<Rightarrow> IAaptContext \<Rightarrow> string \<Rightarrow> addr
     \<Rightarrow> FilterChain \<Rightarrow> XmlResource option \<Rightarrow> ('t, 'o) World
     \<Rightarrow> Outcome option \<times> ('t, 'o) World" where
  "FromBaseApk_write env options ctx artifact_name table filters manifest w =
     (let out0 = out_dir options;
          w1 = (if \<not> mkdirs env out0
                then report Warn None (''could not create out dir: '' @ out0) w else w);
          out = AppendPath env out0 artifact_name;
          w2 = (if Verbose ctx
                then report Note None (''Generating split: '' @ out) w1 else w1);
          writer = CreateZipFileArchiveWriter env out;
          w3 = (if Verbose ctx
                then report Note None (''Writing output: '' @ out) w2 else w2)
      in if \<not> WriteToArchive env ctx (tables w3 table) (table_flattener_options options)
                filters writer manifest
         then (Some (Returned False), w3)
         else (None,
               w3\<lparr>archives := archives w3 @
                   [\<lparr>ar_writer = writer, ar_table = tables w3 table,
                     ar_options = table_flattener_options options,
                     ar_filters = filters, ar_manifest = manifest\<rparr>]\<rparr>))"

text \<open>Lines 155-190: the manifest of an artifact with a resolved SDK group, then the write.\<close>

definition FromBaseApk_manifest ::
  "('t, 'o) Collaborators \<Rightarrow> 'o MultiApkGeneratorOptions \<Rightarrow> IAaptContext \<Rightarrow> Artifact \<Rightarrow> string
     \<Rightarrow> addr \<Rightarrow> FilterChain \<Rightarrow> ('t, 'o) World \<Rightarrow> Outcome option \<times> ('t, 'o) World" where
  "FromBaseApk_manifest env options ctx artifact artifact_name table filters w =
     (let (maybe_sdk, w1) = GetAndroidSdk artifact (config options) w
      in case maybe_sdk of
           None \<Rightarrow> FromBaseApk_write env options ctx artifact_name table filters None w1
         | Some android_sdk \<Rightarrow>
             (case InflateManifest (apk w1) of
                None \<Rightarrow> (Some (Returned False), w1)
              | Some manifest \<Rightarrow>
                  (case root manifest of
                     None \<Rightarrow> (Some (Returned False), w1)
                   | Some manifest_el \<Rightarrow>
                       if el_namespace_uri manifest_el \<noteq> [] \<or> el_name manifest_el \<noteq> ''manifest''
                       then (Some (Returned False),
                             report Error (Some (file_source manifest))
                               ''root tag must be <manifest>'' w1)
                       else
                         (case FindChild manifest_el [] ''uses-sdk'' of
                            None \<Rightarrow>
                              FromBaseApk_write env options ctx artifact_name table filters
                                (Some manifest) w1
                          | Some uses_sdk_el \<Rightarrow>
                              (let min_sdk_attr =
                                     FindAttribute uses_sdk_el kSchemaAndroid ''minSdkVersion''
                               in if min_sdk_attr \<noteq> None then
                                    (if min_sdk_attr = None then
                                       (Some (Returned False),
                                        report Error
                                          (Some ((file_source manifest)
                                                   \<lparr>line := Some (line_number uses_sdk_el)\<rparr>))
                                          ''missing android:minSdkVersion'' w1)
                                     else
                                       (case min_sdk_version android_sdk of
                                          None \<Rightarrow> (Some ValueOnNothing, w1)
                                        | Some v \<Rightarrow>
                                            FromBaseApk_write env options ctx artifact_name
                                              table filters
                                              (Some (assign_min_sdk manifest manifest_el
                                                       (TryParseInt_to_string v)))
                                              w1))
                                  else
                                    FromBaseApk_write env options ctx artifact_name table
                                      filters (Some manifest) w1)))))"

text \<open>Lines 144-153: the artifact name is checked, the table is filtered, then the rest.\<close>

definition FromBaseApk_table ::
  "('t, 'o) Collaborators \<Rightarrow> 'o MultiApkGeneratorOptions \<Rightarrow> IAaptContext \<Rightarrow> Artifact
     \<Rightarrow> string option \<Rightarrow> ('t, 'o) World \<Rightarrow> Outcome option \<times> ('t, 'o) World" where
  "FromBaseApk_table env options ctx artifact artifact_name w =
     (case artifact_name of
        None \<Rightarrow>
          (Some (Returned False),
           report Error None ''Could not determine split APK artifact name'' w)
      | Some nm \<Rightarrow>
          (case FilterTable env ctx artifact (config options) (apk_table (apk w)) [] w of
             (None, filters, w1) \<Rightarrow> (Some (Returned False), w1)
           | (Some table, filters, w1) \<Rightarrow>
               FromBaseApk_manifest env options ctx artifact nm table filters w1))"

text \<open>
  Lines 132-142, then the rest of the body. \<^verbatim>\<open>apk_name\<close> is line 126; \<^verbatim>\<open>ext\<close> and
  \<^verbatim>\<open>base_name\<close> of lines 127-128 are never read.
\<close>

definition FromBaseApk_body ::
  "('t, 'o) Collaborators \<Rightarrow> 'o MultiApkGeneratorOptions \<Rightarrow> IAaptContext \<Rightarrow> Artifact
     \<Rightarrow> ('t, 'o) World \<Rightarrow> Outcome option \<times> ('t, 'o) World" where
  "FromBaseApk_body env options ctx artifact w =
     (let apk_name = GetFilename env (path (apk_source (apk w)))
      in if name artifact = None \<and> artifact_format (config options) = None then
           (Some (Returned False),
            report Error None
              ''Artifact does not have a name and no global name template defined'' w)
         else if name artifact \<noteq> None then
           FromBaseApk_table env options ctx artifact (Name env artifact apk_name) w
         else
           (case artifact_format (config options) of
              None \<Rightarrow> (Some ValueOnNothing, w)
            | Some fmt \<Rightarrow>
                FromBaseApk_table env options ctx artifact
                  (ToArtifactName env artifact fmt apk_name) w))"

text \<open>Line 131: the loop over \<^verbatim>\<open>config.artifacts\<close>, and line 215.\<close>

fun FromBaseApk_loop ::
  "('t, 'o) Collaborators \<Rightarrow> 'o MultiApkGeneratorOptions \<Rightarrow> IAaptContext \<Rightarrow> Artifact list
     \<Rightarrow> ('t, 'o) World \<Rightarrow> Outcome \<times> ('t, 'o) World" where
  "FromBaseApk_loop env options ctx [] w = (Returned True, w)"
| "FromBaseApk_loop env options ctx (artifact # rest) w =
     (case FromBaseApk_body env options ctx artifact w of
        (Some outcome, w1) \<Rightarrow> (outcome, w1)
      | (None, w1) \<Rightarrow> FromBaseApk_loop env options ctx rest w1)"

definition FromBaseApk ::
  "('t, 'o) Collaborators \<Rightarrow> 'o MultiApkGeneratorOptions \<Rightarrow> IAaptContext \<Rightarrow> ('t, 'o) World
     \<Rightarrow> Outcome \<times> ('t, 'o) World" where
  "FromBaseApk env options ctx w =
     FromBaseApk_loop env options ctx (artifacts (config options)) w"

section \<open>Concrete inputs\<close>

text \<open>
  A small instance on which the theorems below are evaluated: resource tables are
  numbers, the version collapse adds the effective minimum SDK to the table and the
  split doubles it, so that every mutation of a table is visible; every other
  collaborator succeeds.
\<close>

definition ex_env :: "(int, unit) Collaborators" where
  "ex_env =
     \<lparr>GetFilename = (\<lambda>p. p),
      Name = (\<lambda>a apk_name. name a),
      ToArtifactName = (\<lambda>a fmt apk_name. Some (fmt @ apk_name)),
      Consume = (\<lambda>c t. (True, t + GetMinSdkVersion c)),
      SplitTable = (\<lambda>splits t. 2 * t),
      mkdirs = (\<lambda>d. True),
      AppendPath = (\<lambda>d f. d @ ''/'' @ f),
      CreateZipFileArchiveWriter = (\<lambda>p. Some p),
      WriteToArchive = (\<lambda>c t fo fs wr m. wr \<noteq> None)\<rparr>"

definition ex_context :: IAaptContext where
  "ex_context =
     \<lparr>PackageType = 0, ExternalSymbols = 1, Diagnostics = 2, CompilationPackage = ''com.app'',
      PackageId = 127, NameMangler = 3, Verbose = False, MinSdkVersion = 14\<rparr>"

definition ex_min_sdk_attr :: Attribute where
  "ex_min_sdk_attr = Attribute kSchemaAndroid ''minSdkVersion'' ''14'' (Some (BinaryPrimitive 14))"

text \<open>
  Three manifests: \<^verbatim>\<open><manifest><uses-sdk android:minSdkVersion="14"/></manifest>\<close>,
  \<^verbatim>\<open><manifest><uses-sdk/></manifest>\<close> and \<^verbatim>\<open><manifest><application/></manifest>\<close>.
\<close>

definition ex_manifest :: "Attribute list \<Rightarrow> XmlResource" where
  "ex_manifest attrs =
     \<lparr>file_source = \<lparr>path = ''AndroidManifest.xml'', line = None\<rparr>,
      root = Some (Element [] ''manifest'' 1 []
               [TextNode '' '', ElementNode (Element [] ''uses-sdk'' 2 attrs [])])\<rparr>"

definition ex_manifest_no_uses_sdk :: XmlResource where
  "ex_manifest_no_uses_sdk =
     \<lparr>file_source = \<lparr>path = ''AndroidManifest.xml'', line = None\<rparr>,
      root = Some (Element [] ''manifest'' 1 [] [ElementNode (Element [] ''application'' 2 [] [])])\<rparr>"

definition ex_world :: "XmlResource option \<Rightarrow> (int, unit) World" where
  "ex_world m =
     \<lparr>apk = \<lparr>apk_source = \<lparr>path = ''app.apk'', line = None\<rparr>, apk_table = 0, apk_manifest = m\<rparr>,
      tables = (\<lambda>a. 100), next_table = 1, diags = [], archives = []\<rparr>"

definition ex_artifact :: "string \<Rightarrow> string option \<Rightarrow> Artifact" where
  "ex_artifact nm sdk_group =
     \<lparr>name = Some nm, abi_group = None, screen_density_group = None, locale_group = None,
      android_sdk_group = sdk_group\<rparr>"

text \<open>
  A configuration with the SDK groups \<open>v21\<close> (minimum version 21) and \<open>nomin\<close> (no
  minimum version), no other group and no global name template.
\<close>

definition ex_options :: "Artifact list \<Rightarrow> unit MultiApkGeneratorOptions" where
  "ex_options as =
     \<lparr>out_dir = ''out'',
      config =
        \<lparr>artifacts = as, artifact_format = None, abi_groups = Map.empty,
         screen_density_groups = Map.empty, locale_groups = Map.empty,
         android_sdk_groups =
           [''v21'' \<mapsto> \<lparr>min_sdk_version = Some 21\<rparr>, ''nomin'' \<mapsto> \<lparr>min_sdk_version = None\<rparr>]\<rparr>,
      table_flattener_options = ()\<rparr>"

text \<open>
  An artifact that names a locale group the configuration does not have, an artifact
  without a name, and collaborators whose \<^verbatim>\<open>file::mkdirs\<close> fails.
\<close>

definition ex_bad_locale :: Artifact where
  "ex_bad_locale = (ex_artifact ''b.apk'' None)\<lparr>locale_group := Some ''missing''\<rparr>"

definition ex_unnamed :: Artifact where
  "ex_unnamed = (ex_artifact [] None)\<lparr>name := None\<rparr>"

definition ex_env_no_dir :: "(int, unit) Collaborators" where
  "ex_env_no_dir = ex_env\<lparr>mkdirs := (\<lambda>d. False)\<rparr>"

text \<open>The state after the loop has gone through the artifact \<open>a.apk\<close> alone.\<close>

definition ex_after_first :: "Artifact list \<Rightarrow> (int, unit) World" where
  "ex_after_first as =
     snd (FromBaseApk_loop ex_env (ex_options as) ex_context [ex_artifact ''a.apk'' None]
            (ex_world None))"

definition ex_run :: "Artifact list \<Rightarrow> XmlResource option \<Rightarrow> Outcome \<times> (int, unit) World" where
  "ex_run as m = FromBaseApk ex_env (ex_options as) ex_context (ex_world m)"

lemmas model_defs =
  FromBaseApk_def FromBaseApk_body_def FromBaseApk_table_def FromBaseApk_manifest_def
  FromBaseApk_write_def FilterTable_def FilterTable_density_def FilterTable_locale_def
  FilterTable_collapse_def GetAndroidSdk_def wrappedContext_def Clone_def InflateManifest_def
  TryParseInt_to_string_def assign_min_sdk_def set_children_def set_attributes_def
  FindChild_def FindAttribute_def report_def quote_def AddFilter_def AddConfig_def
  ContextWrapper_def SetMinSdkVersion_def GetMinSdkVersion_def

lemmas ex_defs =
  ex_run_def ex_env_def ex_options_def ex_context_def ex_world_def ex_artifact_def
  ex_manifest_def ex_manifest_no_uses_sdk_def ex_min_sdk_attr_def kSchemaAndroid_def
  ex_bad_locale_def ex_unnamed_def ex_env_no_dir_def ex_after_first_def

section \<open>What each segment leaves untouched\<close>

lemma report_simps [simp]:
  "apk (report s src m w) = apk w"
  "tables (report s src m w) = tables w"
  "next_table (report s src m w) = next_table w"
  "archives (report s src m w) = archives w"
  "diags (report s src m w) = diags w @ [Diag s src m]"
  by (simp_all add: report_def)

lemma GetAndroidSdk_world: "\<exists>ds. snd (GetAndroidSdk a cfg w) = w\<lparr>diags := ds\<rparr>"
  by (auto simp: GetAndroidSdk_def report_def split: option.splits intro: exI [of _ "diags w"])

lemma FilterTable_collapse_frame:
  assumes "FilterTable_collapse env c a cfg old fs sp w = (t, fs', w')"
  shows "apk w' = apk w" "archives w' = archives w" "next_table w' = Suc (next_table w)"
    "x < next_table w \<Longrightarrow> tables w' x = tables w x"
    "t = Some p \<Longrightarrow> p = next_table w"
proof -
  obtain s w1 where g: "GetAndroidSdk a cfg w = (s, w1)"
    by (cases "GetAndroidSdk a cfg w")
  from GetAndroidSdk_world [of a cfg w] g obtain ds where w1: "w1 = w\<lparr>diags := ds\<rparr>"
    by auto
  from assms g w1
  show "apk w' = apk w" "archives w' = archives w" "next_table w' = Suc (next_table w)"
    "x < next_table w \<Longrightarrow> tables w' x = tables w x"
    "t = Some p \<Longrightarrow> p = next_table w"
    by (auto simp: FilterTable_collapse_def Clone_def Let_def split: prod.splits if_splits)
qed

lemma FilterTable_collapse_result:
  assumes "Consume env (wrappedContext ctx (fst (GetAndroidSdk a cfg w))) (tables w old) = (ok, t)"
  shows "fst (FilterTable_collapse env ctx a cfg old fs sp w) =
           (if ok then Some (next_table w) else None) \<and>
         tables (snd (snd (FilterTable_collapse env ctx a cfg old fs sp w))) (next_table w) =
           (if ok then SplitTable env sp t else t)"
proof -
  obtain s w1 where g: "GetAndroidSdk a cfg w = (s, w1)"
    by (cases "GetAndroidSdk a cfg w")
  from GetAndroidSdk_world [of a cfg w] g obtain ds where w1: "w1 = w\<lparr>diags := ds\<rparr>"
    by auto
  from assms g w1 show ?thesis
    by (simp add: FilterTable_collapse_def Clone_def Let_def)
qed

lemma FilterTable_frame:
  assumes "FilterTable env c a cfg old fs w = (t, fs', w')"
  shows "apk w' = apk w" "archives w' = archives w" "next_table w \<le> next_table w'"
    "x < next_table w \<Longrightarrow> tables w' x = tables w x"
    "t = Some p \<Longrightarrow> p = next_table w"
  using assms
  by (auto simp: FilterTable_def FilterTable_density_def FilterTable_locale_def Let_def
      dest: FilterTable_collapse_frame split: option.splits)


lemma FromBaseApk_write_cases:
  assumes "FromBaseApk_write env options c nm table fs m w = (r, w')"
  shows "apk w' = apk w \<and> tables w' = tables w \<and> next_table w' = next_table w \<and>
     ((r = Some (Returned False) \<and> archives w' = archives w) \<or>
      (r = None \<and> (\<exists>x. archives w' = archives w @ [x])))"
  using assms
  by (auto simp: FromBaseApk_write_def Let_def split: if_splits)

lemma FromBaseApk_manifest_cases:
  assumes "FromBaseApk_manifest env options c a nm table fs w = (r, w')"
  shows "apk w' = apk w \<and> tables w' = tables w \<and> next_table w' = next_table w \<and>
     ((r = Some (Returned False) \<and> archives w' = archives w) \<or>
      (r = Some ValueOnNothing \<and> archives w' = archives w) \<or>
      (r = None \<and> (\<exists>x. archives w' = archives w @ [x])))"
proof -
  obtain s w1 where g: "GetAndroidSdk a (config options) w = (s, w1)"
    by (cases "GetAndroidSdk a (config options) w")
  from GetAndroidSdk_world [of a "config options" w] g obtain ds where w1: "w1 = w\<lparr>diags := ds\<rparr>"
    by auto
  from assms g [unfolded w1] show ?thesis
    unfolding FromBaseApk_manifest_def Let_def
    by (auto split: option.splits if_splits dest!: FromBaseApk_write_cases)
qed

lemma FromBaseApk_table_cases:
  assumes "FromBaseApk_table env options c a nm w = (r, w')"
  shows "apk w' = apk w \<and> next_table w \<le> next_table w' \<and>
     (\<forall>x < next_table w. tables w' x = tables w x) \<and>
     ((r = Some (Returned False) \<and> archives w' = archives w) \<or>
      (r = Some ValueOnNothing \<and> archives w' = archives w) \<or>
      (r = None \<and> (\<exists>x. archives w' = archives w @ [x])))"
proof (cases nm)
  case None
  with assms show ?thesis by (auto simp: FromBaseApk_table_def)
next
  case (Some n)
  obtain t fs w1 where f: "FilterTable env c a (config options) (apk_table (apk w)) [] w = (t, fs, w1)"
    by (cases "FilterTable env c a (config options) (apk_table (apk w)) [] w")
  note fr = FilterTable_frame [OF f]
  show ?thesis
  proof (cases t)
    case None
    with assms Some f fr show ?thesis by (auto simp: FromBaseApk_table_def)
  next
    case (Some tab)
    with assms \<open>nm = Some n\<close> f
    have m: "FromBaseApk_manifest env options c a n tab fs w1 = (r, w')"
      by (simp add: FromBaseApk_table_def)
    from FromBaseApk_manifest_cases [OF m] fr show ?thesis by auto
  qed
qed

lemma FromBaseApk_body_cases:
  assumes "FromBaseApk_body env options c a w = (r, w')"
  shows "apk w' = apk w \<and> next_table w \<le> next_table w' \<and>
     (\<forall>x < next_table w. tables w' x = tables w x) \<and>
     ((r = Some (Returned False) \<and> archives w' = archives w) \<or>
      (r = Some ValueOnNothing \<and> archives w' = archives w) \<or>
      (r = None \<and> (\<exists>x. archives w' = archives w @ [x])))"
  using assms unfolding FromBaseApk_body_def Let_def
  by (auto split: if_splits option.splits dest!: FromBaseApk_table_cases)


lemma FromBaseApk_loop_success:
  "FromBaseApk_loop env options c as w = (Returned True, w') \<Longrightarrow>
     \<exists>ws. archives w' = archives w @ ws \<and> length ws = length as"
proof (induction as arbitrary: w)
  case Nil
  then show ?case by simp
next
  case (Cons a as)
  obtain r1 w1 where b: "FromBaseApk_body env options c a w = (r1, w1)"
    by (cases "FromBaseApk_body env options c a w")
  from FromBaseApk_body_cases [OF b] Cons.prems b
  have r1: "r1 = None" and "\<exists>x. archives w1 = archives w @ [x]"
    by (auto split: option.splits)
  then obtain x where x: "archives w1 = archives w @ [x]" by blast
  from Cons.prems b r1 have "FromBaseApk_loop env options c as w1 = (Returned True, w')" by simp
  from Cons.IH [OF this] obtain ws where "archives w' = archives w1 @ ws" "length ws = length as"
    by blast
  with x have "archives w' = archives w @ (x # ws) \<and> length (x # ws) = length (a # as)" by simp
  then show ?case by blast
qed

lemma FromBaseApk_loop_append:
  "FromBaseApk_loop env options c (xs @ ys) w =
     (case FromBaseApk_loop env options c xs w of
        (Returned True, w1) \<Rightarrow> FromBaseApk_loop env options c ys w1
      | (Returned False, w1) \<Rightarrow> (Returned False, w1)
      | (ValueOnNothing, w1) \<Rightarrow> (ValueOnNothing, w1))"
proof (induction xs arbitrary: w)
  case Nil
  then show ?case by simp
next
  case (Cons a xs)
  obtain r1 w1 where b: "FromBaseApk_body env options c a w = (r1, w1)"
    by (cases "FromBaseApk_body env options c a w")
  from FromBaseApk_body_cases [OF b]
  consider "r1 = None" | "r1 = Some (Returned False)" | "r1 = Some ValueOnNothing" by blast
  then show ?case
    by cases (simp_all add: b Cons.IH)
qed


lemma find_attribute_assign:
  "find_attribute ns nm as = Some a \<Longrightarrow>
     find_attribute ns nm (assign_attribute ns nm v as) =
       Some (Attribute (attr_namespace_uri a) (attr_name a) (attr_value a) v)"
  by (induction as) (auto split: if_splits)

lemma find_child_assign:
  "find_child ns nm cs = Some e \<Longrightarrow> el_namespace_uri (f e) = el_namespace_uri e \<Longrightarrow>
     el_name (f e) = el_name e \<Longrightarrow>
     find_child ns nm (assign_in_child ns nm f cs) = Some (f e)"
  by (induction ns nm cs rule: find_child.induct) (auto split: if_splits)

section \<open>Where the loop body ends the run\<close>

lemma body_without_name_or_template:
  "name a = None \<Longrightarrow> artifact_format (config options) = None \<Longrightarrow>
     FromBaseApk_body env options ctx a w =
       (Some (Returned False),
        report Error None
          ''Artifact does not have a name and no global name template defined'' w)"
  by (simp add: FromBaseApk_body_def)

lemma table_without_artifact_name:
  "FromBaseApk_table env options ctx a None w =
     (Some (Returned False),
      report Error None ''Could not determine split APK artifact name'' w)"
  by (simp add: FromBaseApk_table_def)

lemma table_filter_failed:
  "FilterTable env ctx a (config options) (apk_table (apk w)) [] w = (None, fs, w1) \<Longrightarrow>
     FromBaseApk_table env options ctx a (Some nm) w = (Some (Returned False), w1)"
  by (simp add: FromBaseApk_table_def)

lemma FilterTable_missing_abi_group:
  "abi_group a = Some g \<Longrightarrow> abi_groups cfg g = None \<Longrightarrow>
     FilterTable env ctx a cfg old fs w =
       (None, fs, report Error None (''could not find referenced ABI group '' @ quote g) w)"
  by (simp add: FilterTable_def)

lemma FilterTable_missing_density_group:
  "abi_group a = None \<Longrightarrow> screen_density_group a = Some g \<Longrightarrow>
     screen_density_groups cfg g = None \<Longrightarrow>
     FilterTable env ctx a cfg old fs w =
       (None, fs, report Error None (''could not find referenced group '' @ quote g) w)"
  by (simp add: FilterTable_def FilterTable_density_def)

lemma FilterTable_missing_locale_group:
  "abi_group a = None \<Longrightarrow> screen_density_group a = None \<Longrightarrow> locale_group a = Some g \<Longrightarrow>
     locale_groups cfg g = None \<Longrightarrow>
     FilterTable env ctx a cfg old fs w =
       (None, fs, report Error None (''could not find referenced group '' @ quote g) w)"
  by (simp add: FilterTable_def FilterTable_density_def FilterTable_locale_def)

lemma manifest_load_failed:
  "android_sdk_group a = Some g \<Longrightarrow> android_sdk_groups (config options) g = Some sdk \<Longrightarrow>
     apk_manifest (apk w) = None \<Longrightarrow>
     FromBaseApk_manifest env options ctx a nm table fs w = (Some (Returned False), w)"
  by (simp add: FromBaseApk_manifest_def GetAndroidSdk_def InflateManifest_def)

lemma manifest_missing_sdk_group:
  "android_sdk_group a = Some g \<Longrightarrow> android_sdk_groups (config options) g = None \<Longrightarrow>
     FromBaseApk_manifest env options ctx a nm table fs w =
       FromBaseApk_write env options ctx nm table fs None
         (report Error None (''could not find referenced group '' @ quote g) w)"
  by (simp add: FromBaseApk_manifest_def GetAndroidSdk_def)

lemma manifest_without_min_sdk_attribute:
  "android_sdk_group a = Some g \<Longrightarrow> android_sdk_groups (config options) g = Some sdk \<Longrightarrow>
     apk_manifest (apk w) = Some m \<Longrightarrow> root m = Some manifest_el \<Longrightarrow>
     el_namespace_uri manifest_el = [] \<Longrightarrow> el_name manifest_el = ''manifest'' \<Longrightarrow>
     FindChild manifest_el [] ''uses-sdk'' = Some uses_sdk_el \<Longrightarrow>
     FindAttribute uses_sdk_el kSchemaAndroid ''minSdkVersion'' = None \<Longrightarrow>
     FromBaseApk_manifest env options ctx a nm table fs w =
       FromBaseApk_write env options ctx nm table fs (Some m) w"
  by (simp add: FromBaseApk_manifest_def GetAndroidSdk_def InflateManifest_def)

lemma body_name_unresolved:
  "name a = Some n \<Longrightarrow> Name env a (GetFilename env (path (apk_source (apk w)))) = None \<Longrightarrow>
     FromBaseApk_body env options ctx a w =
       (Some (Returned False),
        report Error None ''Could not determine split APK artifact name'' w)"
  by (simp add: FromBaseApk_body_def FromBaseApk_table_def)

lemma body_template_unresolved:
  "name a = None \<Longrightarrow> artifact_format (config options) = Some fmt \<Longrightarrow>
     ToArtifactName env a fmt (GetFilename env (path (apk_source (apk w)))) = None \<Longrightarrow>
     FromBaseApk_body env options ctx a w =
       (Some (Returned False),
        report Error None ''Could not determine split APK artifact name'' w)"
  by (simp add: FromBaseApk_body_def FromBaseApk_table_def)

lemma body_named:
  "name a = Some n \<Longrightarrow>
     FromBaseApk_body env options ctx a w =
       FromBaseApk_table env options ctx a
         (Name env a (GetFilename env (path (apk_source (apk w))))) w"
  by (simp add: FromBaseApk_body_def)

lemma body_templated:
  "name a = None \<Longrightarrow> artifact_format (config options) = Some fmt \<Longrightarrow>
     FromBaseApk_body env options ctx a w =
       FromBaseApk_table env options ctx a
         (ToArtifactName env a fmt (GetFilename env (path (apk_source (apk w))))) w"
  by (simp add: FromBaseApk_body_def)

lemma table_missing_abi_group:
  "abi_group a = Some g \<Longrightarrow> abi_groups (config options) g = None \<Longrightarrow>
     FromBaseApk_table env options ctx a (Some nm) w =
       (Some (Returned False),
        report Error None (''could not find referenced ABI group '' @ quote g) w)"
  by (simp add: FromBaseApk_table_def FilterTable_def)

lemma table_missing_density_group:
  "\<forall>g'. abi_group a = Some g' \<longrightarrow> abi_groups (config options) g' \<noteq> None \<Longrightarrow>
     screen_density_group a = Some g \<Longrightarrow> screen_density_groups (config options) g = None \<Longrightarrow>
     FromBaseApk_table env options ctx a (Some nm) w =
       (Some (Returned False),
        report Error None (''could not find referenced group '' @ quote g) w)"
  by (cases "abi_group a")
     (auto simp: FromBaseApk_table_def FilterTable_def FilterTable_density_def)

lemma table_missing_locale_group:
  "\<forall>g'. abi_group a = Some g' \<longrightarrow> abi_groups (config options) g' \<noteq> None \<Longrightarrow>
     \<forall>g'. screen_density_group a = Some g' \<longrightarrow>
        screen_density_groups (config options) g' \<noteq> None \<Longrightarrow>
     locale_group a = Some g \<Longrightarrow> locale_groups (config options) g = None \<Longrightarrow>
     FromBaseApk_table env options ctx a (Some nm) w =
       (Some (Returned False),
        report Error None (''could not find referenced group '' @ quote g) w)"
  by (cases "abi_group a"; cases "screen_density_group a")
     (auto simp: FromBaseApk_table_def FilterTable_def FilterTable_density_def
        FilterTable_locale_def)

lemma collapse_failed:
  "fst (Consume env (wrappedContext ctx (fst (GetAndroidSdk a cfg w))) (tables w old)) = False \<Longrightarrow>
     fst (FilterTable_collapse env ctx a cfg old fs sp w) = None"
  using FilterTable_collapse_result [of env ctx a cfg w old False
      "snd (Consume env (wrappedContext ctx (fst (GetAndroidSdk a cfg w))) (tables w old))" fs sp]
  by (simp add: prod_eq_iff)

lemma manifest_root_missing:
  "android_sdk_group a = Some g \<Longrightarrow> android_sdk_groups (config options) g = Some sdk \<Longrightarrow>
     apk_manifest (apk w) = Some m \<Longrightarrow> root m = None \<Longrightarrow>
     FromBaseApk_manifest env options ctx a nm table fs w = (Some (Returned False), w)"
  by (simp add: FromBaseApk_manifest_def GetAndroidSdk_def InflateManifest_def)

lemma manifest_invalid_root:
  "android_sdk_group a = Some g \<Longrightarrow> android_sdk_groups (config options) g = Some sdk \<Longrightarrow>
     apk_manifest (apk w) = Some m \<Longrightarrow> root m = Some manifest_el \<Longrightarrow>
     el_namespace_uri manifest_el \<noteq> [] \<or> el_name manifest_el \<noteq> ''manifest'' \<Longrightarrow>
     FromBaseApk_manifest env options ctx a nm table fs w =
       (Some (Returned False),
        report Error (Some (file_source m)) ''root tag must be <manifest>'' w)"
  by (simp add: FromBaseApk_manifest_def GetAndroidSdk_def InflateManifest_def)

lemma write_failed:
  "\<not> WriteToArchive env ctx (tables w table) (table_flattener_options options) fs
       (CreateZipFileArchiveWriter env (AppendPath env (out_dir options) nm)) m \<Longrightarrow>
     fst (FromBaseApk_write env options ctx nm table fs m w) = Some (Returned False)"
  by (simp add: FromBaseApk_write_def Let_def)

text \<open>
  The loop of line 131 goes through \<^verbatim>\<open>config.artifacts\<close> in order and ends at the first
  body that returns false: when the artifacts before \<open>a\<close> have all been processed and the
  body of \<open>a\<close> returns false, the run returns false in the state that body left,
  whatever artifacts follow; that body has written no archive, and the archives of the
  earlier artifacts, one for each, are still there.
\<close>

lemma first_returned_false_ends_the_run:
  assumes "artifacts (config options) = pre @ a # rest"
    and "FromBaseApk_loop env options ctx pre w = (Returned True, w1)"
    and "FromBaseApk_body env options ctx a w1 = (Some (Returned False), w2)"
  shows "FromBaseApk env options ctx w = (Returned False, w2) \<and>
         archives w2 = archives w1 \<and>
         (\<exists>ws. archives w1 = archives w @ ws \<and> length ws = length pre)"
proof -
  have "FromBaseApk env options ctx w = (Returned False, w2)"
    by (simp add: FromBaseApk_def assms FromBaseApk_loop_append)
  moreover from FromBaseApk_body_cases [OF assms(3)] have "archives w2 = archives w1"
    by auto
  moreover note FromBaseApk_loop_success [OF assms(2)]
  ultimately show ?thesis by blast
qed

lemma first_returned_false_ends_the_run_example:
  "artifacts (config (ex_options [ex_artifact ''a.apk'' None, ex_bad_locale,
      ex_artifact ''c.apk'' None])) =
     [ex_artifact ''a.apk'' None] @ ex_bad_locale # [ex_artifact ''c.apk'' None] \<and>
   fst (FromBaseApk_loop ex_env
          (ex_options [ex_artifact ''a.apk'' None, ex_bad_locale, ex_artifact ''c.apk'' None])
          ex_context [ex_artifact ''a.apk'' None] (ex_world None)) = Returned True \<and>
   fst (FromBaseApk_body ex_env
          (ex_options [ex_artifact ''a.apk'' None, ex_bad_locale, ex_artifact ''c.apk'' None])
          ex_context ex_bad_locale
          (ex_after_first [ex_artifact ''a.apk'' None, ex_bad_locale,
             ex_artifact ''c.apk'' None])) = Some (Returned False) \<and>
   fst (ex_run [ex_artifact ''a.apk'' None, ex_bad_locale, ex_artifact ''c.apk'' None] None) =
     Returned False \<and>
   map ar_writer (archives (snd (ex_run [ex_artifact ''a.apk'' None, ex_bad_locale,
     ex_artifact ''c.apk'' None] None))) = [Some ''out/a.apk'']"
proof -
  let ?as = "[ex_artifact ''a.apk'' None, ex_bad_locale, ex_artifact ''c.apk'' None]"
  let ?o = "ex_options ?as"
  let ?w1 = "ex_after_first ?as"
  have h1: "artifacts (config ?o) =
      [ex_artifact ''a.apk'' None] @ ex_bad_locale # [ex_artifact ''c.apk'' None]"
    by (simp add: ex_options_def)
  have f2: "fst (FromBaseApk_loop ex_env ?o ex_context [ex_artifact ''a.apk'' None]
      (ex_world None)) = Returned True"
    by (simp add: model_defs ex_defs Let_def)
  then have h2: "FromBaseApk_loop ex_env ?o ex_context [ex_artifact ''a.apk'' None]
      (ex_world None) = (Returned True, ?w1)"
    by (simp add: prod_eq_iff ex_after_first_def)
  have f3: "fst (FromBaseApk_body ex_env ?o ex_context ex_bad_locale ?w1) =
      Some (Returned False)"
    by (simp add: model_defs ex_defs Let_def)
  then have h3: "FromBaseApk_body ex_env ?o ex_context ex_bad_locale ?w1 =
      (Some (Returned False), snd (FromBaseApk_body ex_env ?o ex_context ex_bad_locale ?w1))"
    by (simp add: prod_eq_iff)
  have a1: "map ar_writer (archives ?w1) = [Some ''out/a.apk'']"
    by (simp add: model_defs ex_defs Let_def)
  from first_returned_false_ends_the_run [OF h1 h2 h3] a1 h1 f2 f3 show ?thesis
    by (simp add: ex_run_def)
qed

section \<open>The claims\<close>

text \<open>
  C1. The specification asks that, for an artifact bound to a resolved SDK group, a
  manifest whose \<open>uses-sdk\<close> element lacks \<open>android:minSdkVersion\<close> make generation
  fail with the diagnostic "missing android:minSdkVersion", and that no later artifact be
  written. The code: line 179 enters its block only when \<^verbatim>\<open>FindAttribute\<close> returned
  a non-null pointer, so the null test of line 181 inside that block is never true. On
  the manifest \<^verbatim>\<open><manifest><uses-sdk/></manifest>\<close> and the artifacts \<open>a.apk\<close> (SDK
  group \<open>v21\<close>) and \<open>b.apk\<close>, the run returns true, reports nothing, and writes both
  archives.
\<close>

theorem C1_missing_min_sdk_attribute_is_not_reported:
  "map_option (\<lambda>uses_sdk_el. FindAttribute uses_sdk_el kSchemaAndroid ''minSdkVersion'')
     (Option.bind (root (ex_manifest [])) (\<lambda>manifest_el. FindChild manifest_el [] ''uses-sdk''))
     = Some None \<and>
   fst (ex_run [ex_artifact ''a.apk'' (Some ''v21''), ex_artifact ''b.apk'' None]
          (Some (ex_manifest []))) = Returned True \<and>
   diags (snd (ex_run [ex_artifact ''a.apk'' (Some ''v21''), ex_artifact ''b.apk'' None]
          (Some (ex_manifest [])))) = [] \<and>
   map ar_writer (archives (snd (ex_run [ex_artifact ''a.apk'' (Some ''v21''),
          ex_artifact ''b.apk'' None] (Some (ex_manifest []))))) =
     [Some ''out/a.apk'', Some ''out/b.apk'']"
  by (simp add: model_defs ex_defs Let_def)

text \<open>
  C2. The specification asks that an artifact that names a group absent from its axis
  mapping (ABI, screen density, locale or SDK) fail, and that the run report failure.
  The code does so for the ABI, density and locale axes
  (\<open>FilterTable_missing_abi_group\<close> and its two siblings, with \<open>table_filter_failed\<close>).
  For the SDK axis \<^verbatim>\<open>GetAndroidSdk\<close> reports the error and returns an empty
  \<^verbatim>\<open>Maybe\<close>, which both callers read as "no SDK group": on the artifact \<open>a.apk\<close>
  with the SDK group \<open>missing\<close> the run reports the missing group twice, writes the
  archive and returns true.
\<close>

theorem C2_missing_sdk_group_does_not_fail:
  "android_sdk_groups (config (ex_options [ex_artifact ''a.apk'' (Some ''missing'')])) ''missing''
     = None \<and>
   fst (ex_run [ex_artifact ''a.apk'' (Some ''missing'')] None) = Returned True \<and>
   diags (snd (ex_run [ex_artifact ''a.apk'' (Some ''missing'')] None)) =
     [Diag Error None (''could not find referenced group '' @ quote ''missing''),
      Diag Error None (''could not find referenced group '' @ quote ''missing'')] \<and>
   map ar_writer (archives (snd (ex_run [ex_artifact ''a.apk'' (Some ''missing'')] None))) =
     [Some ''out/a.apk'']"
  by (simp add: model_defs ex_defs Let_def)

text \<open>
  C3. The specification asks that the first artifact that fails any step (naming, table
  filtering, manifest load or patch, archive write) make the run return failure at once,
  with no later artifact named, filtered or written. The code does so wherever a step
  returns null or false (\<open>first_returned_false_ends_the_run\<close>, with
  \<open>body_without_name_or_template\<close>, \<open>body_name_unresolved\<close>,
  \<open>table_missing_abi_group\<close> and its two siblings, \<open>collapse_failed\<close>,
  \<open>manifest_load_failed\<close>, \<open>manifest_root_missing\<close>, \<open>manifest_invalid_root\<close> and
  \<open>write_failed\<close>). It does not where the SDK group of an artifact cannot be resolved:
  \<^verbatim>\<open>GetAndroidSdk\<close> reports the error, in \<^verbatim>\<open>FilterTable\<close> and again before the
  manifest step, and both callers go on. With the artifacts \<open>a.apk\<close> (SDK group
  \<open>missing\<close>) and \<open>b.apk\<close>, the body of \<open>a.apk\<close> reports the two errors, writes its
  archive and reaches its end; then \<open>b.apk\<close> is named, filtered and written, and the run
  returns true.
\<close>

theorem C3_run_goes_on_after_unresolved_sdk_group:
  "android_sdk_groups
     (config (ex_options [ex_artifact ''a.apk'' (Some ''missing''), ex_artifact ''b.apk'' None]))
     ''missing'' = None \<and>
   fst (FromBaseApk_body ex_env
          (ex_options [ex_artifact ''a.apk'' (Some ''missing''), ex_artifact ''b.apk'' None])
          ex_context (ex_artifact ''a.apk'' (Some ''missing'')) (ex_world None)) = None \<and>
   diags (snd (FromBaseApk_body ex_env
          (ex_options [ex_artifact ''a.apk'' (Some ''missing''), ex_artifact ''b.apk'' None])
          ex_context (ex_artifact ''a.apk'' (Some ''missing'')) (ex_world None))) =
     [Diag Error None (''could not find referenced group '' @ quote ''missing''),
      Diag Error None (''could not find referenced group '' @ quote ''missing'')] \<and>
   fst (ex_run [ex_artifact ''a.apk'' (Some ''missing''), ex_artifact ''b.apk'' None] None) =
     Returned True \<and>
   map ar_writer (archives (snd (ex_run [ex_artifact ''a.apk'' (Some ''missing''),
     ex_artifact ''b.apk'' None] None))) = [Some ''out/a.apk'', Some ''out/b.apk''] \<and>
   next_table (snd (ex_run [ex_artifact ''a.apk'' (Some ''missing''),
     ex_artifact ''b.apk'' None] None)) = 3"
  by (simp add: model_defs ex_defs Let_def)

text \<open>
  C4. An artifact with neither a name of its own nor a global name template
  (\<^verbatim>\<open>config.artifact_format\<close>) makes its body return false with the diagnostic
  "Artifact does not have a name and no global name template defined" and nothing else
  changed; reached after the artifacts before it, it makes the run return false, and the
  archives are those written before it.
\<close>

theorem C4_no_name_and_no_template:
  assumes "artifacts (config options) = pre @ a # rest"
    and "name a = None" and "artifact_format (config options) = None"
    and "FromBaseApk_loop env options ctx pre w = (Returned True, w1)"
  shows "FromBaseApk_body env options ctx a w1 =
           (Some (Returned False),
            report Error None
              ''Artifact does not have a name and no global name template defined'' w1) \<and>
         FromBaseApk env options ctx w =
           (Returned False,
            report Error None
              ''Artifact does not have a name and no global name template defined'' w1) \<and>
         archives (snd (FromBaseApk env options ctx w)) = archives w1"
proof -
  have b: "FromBaseApk_body env options ctx a w1 =
           (Some (Returned False),
            report Error None
              ''Artifact does not have a name and no global name template defined'' w1)"
    using assms(2,3) by (simp add: FromBaseApk_body_def)
  have "FromBaseApk env options ctx w =
           (Returned False,
            report Error None
              ''Artifact does not have a name and no global name template defined'' w1)"
    by (simp add: FromBaseApk_def assms(1,4) FromBaseApk_loop_append b)
  with b show ?thesis by simp
qed

theorem C4_no_name_and_no_template_witness:
  "artifacts (config (ex_options [ex_artifact ''a.apk'' None, ex_unnamed])) =
     [ex_artifact ''a.apk'' None] @ ex_unnamed # [] \<and>
   name ex_unnamed = None \<and>
   artifact_format (config (ex_options [ex_artifact ''a.apk'' None, ex_unnamed])) = None \<and>
   fst (FromBaseApk_loop ex_env (ex_options [ex_artifact ''a.apk'' None, ex_unnamed])
          ex_context [ex_artifact ''a.apk'' None] (ex_world None)) = Returned True \<and>
   fst (ex_run [ex_artifact ''a.apk'' None, ex_unnamed] None) = Returned False \<and>
   map ar_writer (archives (snd (ex_run [ex_artifact ''a.apk'' None, ex_unnamed] None))) =
     [Some ''out/a.apk'']"
proof -
  let ?as = "[ex_artifact ''a.apk'' None, ex_unnamed]"
  let ?o = "ex_options ?as"
  let ?w1 = "ex_after_first ?as"
  have h1: "artifacts (config ?o) = [ex_artifact ''a.apk'' None] @ ex_unnamed # []"
    by (simp add: ex_options_def)
  have h2: "name ex_unnamed = None"
    by (simp add: ex_unnamed_def)
  have h3: "artifact_format (config ?o) = None"
    by (simp add: ex_options_def)
  have f4: "fst (FromBaseApk_loop ex_env ?o ex_context [ex_artifact ''a.apk'' None]
      (ex_world None)) = Returned True"
    by (simp add: model_defs ex_defs Let_def)
  then have h4: "FromBaseApk_loop ex_env ?o ex_context [ex_artifact ''a.apk'' None]
      (ex_world None) = (Returned True, ?w1)"
    by (simp add: prod_eq_iff ex_after_first_def)
  have a1: "map ar_writer (archives ?w1) = [Some ''out/a.apk'']"
    by (simp add: model_defs ex_defs Let_def)
  from C4_no_name_and_no_template [OF h1 h2 h3 h4] a1 h1 h2 h3 f4 show ?thesis
    by (simp add: ex_run_def)
qed



text \<open>
  C6. For an artifact whose SDK group is found, a manifest with an unqualified
  \<open>manifest\<close> root and no direct unqualified \<open>uses-sdk\<close> child is not patched and raises
  no error: lines 155-190 hand the manifest as loaded, in the unchanged state, to the
  write of lines 192-212.
\<close>

theorem C6_no_uses_sdk_element_no_patch:
  assumes "android_sdk_group artifact = Some g"
    and "android_sdk_groups (config options) g = Some sdk"
    and "apk_manifest (apk w) = Some m"
    and "root m = Some manifest_el"
    and "el_namespace_uri manifest_el = []" and "el_name manifest_el = ''manifest''"
    and "FindChild manifest_el [] ''uses-sdk'' = None"
  shows "FromBaseApk_manifest env options ctx artifact nm table filters w =
           FromBaseApk_write env options ctx nm table filters (Some m) w"
  using assms
  by (simp add: FromBaseApk_manifest_def GetAndroidSdk_def InflateManifest_def)

theorem C6_no_uses_sdk_element_no_patch_witness:
  "android_sdk_group (ex_artifact ''a.apk'' (Some ''v21'')) = Some ''v21'' \<and>
   android_sdk_groups (config (ex_options [])) ''v21'' = Some \<lparr>min_sdk_version = Some 21\<rparr> \<and>
   apk_manifest (apk (ex_world (Some ex_manifest_no_uses_sdk))) = Some ex_manifest_no_uses_sdk \<and>
   root ex_manifest_no_uses_sdk =
     Some (Element [] ''manifest'' 1 [] [ElementNode (Element [] ''application'' 2 [] [])]) \<and>
   FindChild (Element [] ''manifest'' 1 [] [ElementNode (Element [] ''application'' 2 [] [])])
     [] ''uses-sdk'' = None \<and>
   fst (FromBaseApk_manifest ex_env (ex_options []) ex_context
          (ex_artifact ''a.apk'' (Some ''v21'')) ''a.apk'' 0 []
          (ex_world (Some ex_manifest_no_uses_sdk))) = None \<and>
   diags (snd (FromBaseApk_manifest ex_env (ex_options []) ex_context
          (ex_artifact ''a.apk'' (Some ''v21'')) ''a.apk'' 0 []
          (ex_world (Some ex_manifest_no_uses_sdk)))) = [] \<and>
   map ar_manifest (archives (snd (FromBaseApk_manifest ex_env (ex_options []) ex_context
          (ex_artifact ''a.apk'' (Some ''v21'')) ''a.apk'' 0 []
          (ex_world (Some ex_manifest_no_uses_sdk))))) = [Some ex_manifest_no_uses_sdk]"
proof -
  let ?el = "Element [] ''manifest'' 1 [] [ElementNode (Element [] ''application'' 2 [] [])]"
  let ?a = "ex_artifact ''a.apk'' (Some ''v21'')"
  let ?w = "ex_world (Some ex_manifest_no_uses_sdk)"
  have h1: "android_sdk_group ?a = Some ''v21''"
    by (simp add: ex_artifact_def)
  have h2: "android_sdk_groups (config (ex_options [])) ''v21'' = Some \<lparr>min_sdk_version = Some 21\<rparr>"
    by (simp add: ex_options_def)
  have h3: "apk_manifest (apk ?w) = Some ex_manifest_no_uses_sdk"
    by (simp add: ex_world_def)
  have h4: "root ex_manifest_no_uses_sdk = Some ?el"
    by (simp add: ex_manifest_no_uses_sdk_def)
  have h5: "el_namespace_uri ?el = []" and h6: "el_name ?el = ''manifest''"
    by simp_all
  have h7: "FindChild ?el [] ''uses-sdk'' = None"
    by (simp add: FindChild_def)
  have w: "fst (FromBaseApk_write ex_env (ex_options []) ex_context ''a.apk'' 0 []
             (Some ex_manifest_no_uses_sdk) ?w) = None"
    "diags (snd (FromBaseApk_write ex_env (ex_options []) ex_context ''a.apk'' 0 []
             (Some ex_manifest_no_uses_sdk) ?w)) = []"
    "map ar_manifest (archives (snd (FromBaseApk_write ex_env (ex_options []) ex_context
             ''a.apk'' 0 [] (Some ex_manifest_no_uses_sdk) ?w))) = [Some ex_manifest_no_uses_sdk]"
    by (simp_all add: FromBaseApk_write_def Let_def ex_env_def ex_options_def ex_context_def
        ex_world_def)
  from C6_no_uses_sdk_element_no_patch [OF h1 h2 h3 h4 h5 h6 h7, of ex_env ex_context
      "''a.apk''" 0 "[]"] w h1 h2 h3 h4 h7
  show ?thesis by simp
qed

text \<open>
  C7. For an artifact whose SDK group is found and specifies the minimum version \<open>W\<close>,
  and a manifest whose \<open>uses-sdk\<close> element carries \<open>android:minSdkVersion\<close> with the
  compiled value \<open>V\<close>: the manifest handed to the write is a document in which the same
  lookups find the attribute with the compiled value \<open>W\<close>, and the manifest of the base
  package is, after the step, still the document \<open>m\<close> with the value \<open>V\<close>.
\<close>

theorem C7_min_sdk_patched_in_the_clone_only:
  assumes "android_sdk_group artifact = Some g"
    and "android_sdk_groups (config options) g = Some sdk"
    and "min_sdk_version sdk = Some W"
    and "apk_manifest (apk w) = Some m"
    and "root m = Some manifest_el"
    and "el_namespace_uri manifest_el = []" and "el_name manifest_el = ''manifest''"
    and "FindChild manifest_el [] ''uses-sdk'' = Some uses_sdk_el"
    and "FindAttribute uses_sdk_el kSchemaAndroid ''minSdkVersion'' = Some min_sdk_attr"
    and "compiled_value min_sdk_attr = Some (BinaryPrimitive V)"
  shows "\<exists>m' manifest_el' uses_sdk_el' min_sdk_attr'.
           FromBaseApk_manifest env options ctx artifact nm table filters w =
             FromBaseApk_write env options ctx nm table filters (Some m') w \<and>
           root m' = Some manifest_el' \<and>
           FindChild manifest_el' [] ''uses-sdk'' = Some uses_sdk_el' \<and>
           FindAttribute uses_sdk_el' kSchemaAndroid ''minSdkVersion'' = Some min_sdk_attr' \<and>
           compiled_value min_sdk_attr' = Some (BinaryPrimitive W) \<and>
           apk_manifest (apk (snd (FromBaseApk_manifest env options ctx artifact nm table
              filters w))) = Some m"
proof -
  let ?f = "\<lambda>u. set_attributes u
              (assign_attribute kSchemaAndroid ''minSdkVersion'' (Some (BinaryPrimitive W))
                 (attributes u))"
  let ?m = "assign_min_sdk m manifest_el (Some (BinaryPrimitive W))"
  let ?el = "set_children manifest_el (assign_in_child [] ''uses-sdk'' ?f (children manifest_el))"
  let ?a = "Attribute (attr_namespace_uri min_sdk_attr) (attr_name min_sdk_attr)
              (attr_value min_sdk_attr) (Some (BinaryPrimitive W))"
  have run: "FromBaseApk_manifest env options ctx artifact nm table filters w =
      FromBaseApk_write env options ctx nm table filters (Some ?m) w"
    using assms
    by (simp add: FromBaseApk_manifest_def GetAndroidSdk_def InflateManifest_def
        TryParseInt_to_string_def)
  have root: "root ?m = Some ?el"
    by (simp add: assign_min_sdk_def)
  have child: "FindChild ?el [] ''uses-sdk'' = Some (?f uses_sdk_el)"
    using assms(8)
    by (simp add: FindChild_def set_children_def set_attributes_def find_child_assign)
  have attr: "FindAttribute (?f uses_sdk_el) kSchemaAndroid ''minSdkVersion'' = Some ?a"
    using assms(9)
    by (simp add: FindAttribute_def set_attributes_def find_attribute_assign)
  have base: "apk_manifest (apk (snd (FromBaseApk_manifest env options ctx artifact nm table
      filters w))) = Some m"
    using FromBaseApk_manifest_cases [of env options ctx artifact nm table filters w] assms(4)
    by (cases "FromBaseApk_manifest env options ctx artifact nm table filters w") auto
  from run root child attr base show ?thesis
    by (intro exI [of _ ?m] exI [of _ ?el] exI [of _ "?f uses_sdk_el"] exI [of _ ?a]) simp
qed

theorem C7_min_sdk_patched_in_the_clone_only_witness:
  "android_sdk_group (ex_artifact ''a.apk'' (Some ''v21'')) = Some ''v21'' \<and>
   android_sdk_groups (config (ex_options [])) ''v21'' = Some \<lparr>min_sdk_version = Some 21\<rparr> \<and>
   apk_manifest (apk (ex_world (Some (ex_manifest [ex_min_sdk_attr])))) =
     Some (ex_manifest [ex_min_sdk_attr]) \<and>
   root (ex_manifest [ex_min_sdk_attr]) =
     Some (Element [] ''manifest'' 1 []
             [TextNode '' '', ElementNode (Element [] ''uses-sdk'' 2 [ex_min_sdk_attr] [])]) \<and>
   FindChild (Element [] ''manifest'' 1 []
             [TextNode '' '', ElementNode (Element [] ''uses-sdk'' 2 [ex_min_sdk_attr] [])])
     [] ''uses-sdk'' = Some (Element [] ''uses-sdk'' 2 [ex_min_sdk_attr] []) \<and>
   FindAttribute (Element [] ''uses-sdk'' 2 [ex_min_sdk_attr] []) kSchemaAndroid
     ''minSdkVersion'' = Some ex_min_sdk_attr \<and>
   compiled_value ex_min_sdk_attr = Some (BinaryPrimitive 14) \<and>
   (\<exists>m' manifest_el' uses_sdk_el' min_sdk_attr'.
      FromBaseApk_manifest ex_env (ex_options []) ex_context
          (ex_artifact ''a.apk'' (Some ''v21'')) ''a.apk'' 0 []
          (ex_world (Some (ex_manifest [ex_min_sdk_attr]))) =
        FromBaseApk_write ex_env (ex_options []) ex_context ''a.apk'' 0 [] (Some m')
          (ex_world (Some (ex_manifest [ex_min_sdk_attr]))) \<and>
      root m' = Some manifest_el' \<and>
      FindChild manifest_el' [] ''uses-sdk'' = Some uses_sdk_el' \<and>
      FindAttribute uses_sdk_el' kSchemaAndroid ''minSdkVersion'' = Some min_sdk_attr' \<and>
      compiled_value min_sdk_attr' = Some (BinaryPrimitive 21) \<and>
      apk_manifest (apk (snd (FromBaseApk_manifest ex_env (ex_options []) ex_context
          (ex_artifact ''a.apk'' (Some ''v21'')) ''a.apk'' 0 []
          (ex_world (Some (ex_manifest [ex_min_sdk_attr])))))) =
        Some (ex_manifest [ex_min_sdk_attr]))"
proof -
  let ?u = "Element [] ''uses-sdk'' 2 [ex_min_sdk_attr] []"
  let ?el = "Element [] ''manifest'' 1 [] [TextNode '' '', ElementNode ?u]"
  let ?a = "ex_artifact ''a.apk'' (Some ''v21'')"
  let ?w = "ex_world (Some (ex_manifest [ex_min_sdk_attr]))"
  have h1: "android_sdk_group ?a = Some ''v21''"
    by (simp add: ex_artifact_def)
  have h2: "android_sdk_groups (config (ex_options [])) ''v21'' = Some \<lparr>min_sdk_version = Some 21\<rparr>"
    by (simp add: ex_options_def)
  have h3: "min_sdk_version \<lparr>min_sdk_version = Some 21\<rparr> = Some 21"
    by simp
  have h4: "apk_manifest (apk ?w) = Some (ex_manifest [ex_min_sdk_attr])"
    by (simp add: ex_world_def)
  have h5: "root (ex_manifest [ex_min_sdk_attr]) = Some ?el"
    by (simp add: ex_manifest_def)
  have h6: "el_namespace_uri ?el = []" and h7: "el_name ?el = ''manifest''"
    by simp_all
  have h8: "FindChild ?el [] ''uses-sdk'' = Some ?u"
    by (simp add: FindChild_def)
  have h9: "FindAttribute ?u kSchemaAndroid ''minSdkVersion'' = Some ex_min_sdk_attr"
    by (simp add: FindAttribute_def ex_min_sdk_attr_def)
  have h10: "compiled_value ex_min_sdk_attr = Some (BinaryPrimitive 14)"
    by (simp add: ex_min_sdk_attr_def)
  from C7_min_sdk_patched_in_the_clone_only [OF h1 h2 h3 h4 h5 h6 h7 h8 h9 h10,
      of ex_env ex_context "''a.apk''" 0 "[]"] h1 h2 h4 h5 h8 h9 h10
  show ?thesis by blast
qed

text \<open>
  C8. When \<^verbatim>\<open>file::mkdirs\<close> fails on the output directory, lines 192-212 add the warning
  "could not create out dir: ..." (and, in verbose mode, the two notes) to the
  diagnostics and go on to \<^verbatim>\<open>WriteToArchive\<close>: the artifact is written and the loop goes
  on when that call returns true, and the run returns false only when it returns false.
\<close>

theorem C8_mkdirs_failure_is_a_warning:
  assumes "\<not> mkdirs env (out_dir options)"
  shows "FromBaseApk_write env options ctx nm table filters manifest w =
     (let out = AppendPath env (out_dir options) nm;
          writer = CreateZipFileArchiveWriter env out;
          notes = (if Verbose ctx
                   then [Diag Note None (''Generating split: '' @ out),
                         Diag Note None (''Writing output: '' @ out)] else []);
          w1 = w\<lparr>diags := diags w @
                  Diag Warn None (''could not create out dir: '' @ out_dir options) # notes\<rparr>
      in if WriteToArchive env ctx (tables w table) (table_flattener_options options)
              filters writer manifest
         then (None, w1\<lparr>archives := archives w @
                 [\<lparr>ar_writer = writer, ar_table = tables w table,
                   ar_options = table_flattener_options options,
                   ar_filters = filters, ar_manifest = manifest\<rparr>]\<rparr>)
         else (Some (Returned False), w1))"
  using assms
  by (simp add: FromBaseApk_write_def Let_def report_def)

theorem C8_mkdirs_failure_is_a_warning_witness:
  "\<not> mkdirs ex_env_no_dir (out_dir (ex_options [])) \<and>
   fst (FromBaseApk_write ex_env_no_dir (ex_options []) ex_context ''a.apk'' 0 [] None
          (ex_world None)) = None \<and>
   diags (snd (FromBaseApk_write ex_env_no_dir (ex_options []) ex_context ''a.apk'' 0 [] None
          (ex_world None))) = [Diag Warn None ''could not create out dir: out''] \<and>
   map ar_writer (archives (snd (FromBaseApk_write ex_env_no_dir (ex_options []) ex_context
          ''a.apk'' 0 [] None (ex_world None)))) = [Some ''out/a.apk'']"
proof -
  have h: "\<not> mkdirs ex_env_no_dir (out_dir (ex_options []))"
    by (simp add: ex_env_no_dir_def)
  from C8_mkdirs_failure_is_a_warning [OF h, of ex_context "''a.apk''" 0 "[]" None "ex_world None"] h
  show ?thesis
    by (simp add: Let_def ex_env_no_dir_def ex_env_def ex_options_def ex_context_def
        ex_world_def)
qed

text \<open>
  C9. The specification asks that the manifest be loaded and patched only for an SDK
  group that carries a minimum version, so that \<^verbatim>\<open>min_sdk_version.value()\<close> of
  line 186 never reads an empty \<^verbatim>\<open>Maybe\<close>. The code: line 158 tests only that the
  group was found, where line 274 of \<^verbatim>\<open>FilterTable\<close> also tests
  \<^verbatim>\<open>min_sdk_version\<close>. With the SDK group \<open>nomin\<close>, which has no minimum version,
  the manifest is loaded all the same (it is written with the archive when it has no
  \<open>android:minSdkVersion\<close>), and on a manifest that has the attribute the run reads
  \<^verbatim>\<open>value()\<close> of the empty \<^verbatim>\<open>Maybe\<close>.
\<close>

theorem C9_min_sdk_version_read_when_absent:
  "map_option min_sdk_version (android_sdk_groups (config (ex_options [])) ''nomin'') =
     Some None \<and>
   fst (ex_run [ex_artifact ''a.apk'' (Some ''nomin'')] (Some (ex_manifest [ex_min_sdk_attr]))) =
     ValueOnNothing \<and>
   fst (ex_run [ex_artifact ''a.apk'' (Some ''nomin'')] (Some (ex_manifest []))) =
     Returned True \<and>
   map ar_manifest (archives (snd (ex_run [ex_artifact ''a.apk'' (Some ''nomin'')]
     (Some (ex_manifest []))))) = [Some (ex_manifest [])]"
  by (simp add: model_defs ex_defs Let_def)

text \<open>
  C10. The wrapper \<^verbatim>\<open>FilterTable\<close> builds for an artifact answers every accessor but
  \<^verbatim>\<open>GetMinSdkVersion\<close> with the value of the shared context; \<^verbatim>\<open>GetMinSdkVersion\<close>
  answers the minimum version of the artifact's SDK group when there is one and the
  shared context's value otherwise; the context the wrapper points to is the shared
  context as it was, and \<^verbatim>\<open>SetMinSdkVersion\<close> on any wrapper changes what
  \<^verbatim>\<open>GetMinSdkVersion\<close> answers and nothing of the wrapped context.
\<close>

theorem C10_wrapper_overrides_only_min_sdk:
  "GetPackageType (wrappedContext c sdk) = PackageType c \<and>
   GetExternalSymbols (wrappedContext c sdk) = ExternalSymbols c \<and>
   GetDiagnostics (wrappedContext c sdk) = Diagnostics c \<and>
   GetCompilationPackage (wrappedContext c sdk) = CompilationPackage c \<and>
   GetPackageId (wrappedContext c sdk) = PackageId c \<and>
   GetNameMangler (wrappedContext c sdk) = NameMangler c \<and>
   IsVerbose (wrappedContext c sdk) = Verbose c \<and>
   GetMinSdkVersion (wrappedContext c sdk) =
     (case sdk of None \<Rightarrow> MinSdkVersion c
      | Some s \<Rightarrow> (case min_sdk_version s of None \<Rightarrow> MinSdkVersion c | Some v \<Rightarrow> v)) \<and>
   cw_context (wrappedContext c sdk) = c \<and>
   cw_context (SetMinSdkVersion w v) = cw_context w \<and>
   GetMinSdkVersion (SetMinSdkVersion w v) = v"
  by (simp add: wrappedContext_def ContextWrapper_def SetMinSdkVersion_def GetPackageType_def
      GetExternalSymbols_def GetDiagnostics_def GetCompilationPackage_def GetPackageId_def
      GetNameMangler_def IsVerbose_def GetMinSdkVersion_def split: option.splits)

end
